theory Spec2Isabelle
  imports Complex_Main "HOL-Library.Word"
begin

section \<open>Data model\<close>

text \<open>
  The four scripts of FaceDetection-Python are glue code around OpenCV, MediaPipe and
  matplotlib. The embedding keeps the glue as it is written and takes every library call
  as a field of an environment record: what the library computes is a parameter, what the
  scripts do with it is defined here.

  Pixels are \<open>uint8\<close> triples in BGR order. An immutable picture (the value returned by a
  library call that the scripts never draw on) is a record of its shape and its pixels,
  addressed by (row, column).
\<close>

type_synonym bgr = "8 word \<times> 8 word \<times> 8 word"

record 'p image =
  rows :: nat
  cols :: nat
  pixels :: "nat \<times> nat \<Rightarrow> 'p"

text \<open>
  A detection is the 4-tuple \<open>(x, y, w, h)\<close> the scripts unpack in their \<open>for\<close> loops; a
  point is \<open>(x, y)\<close>, column first, as OpenCV takes it.
\<close>

type_synonym rect = "int \<times> int \<times> int \<times> int"
type_synonym point = "int \<times> int"
type_synonym contour = "point list"
type_synonym landmark_list = "(rat \<times> rat \<times> rat) list"

datatype connections = FACEMESH_TESSELATION | FACEMESH_CONTOURS

text \<open>
  The detections of a cascade are the rows of an \<open>int32\<close> array, and the \<open>x\<close>,
  \<open>y\<close>, \<open>w\<close>, \<open>h\<close> a loop unpacks are numpy \<open>int32\<close> scalars, given here by
  their values. The sum of two of them is again an \<open>int32\<close>: it wraps around at
  \<open>2 ^ 31\<close>. (\<open>cv2.boundingRect\<close> of script 01 returns Python integers, whose sums
  do not wrap.)
\<close>

definition int32_add :: "int \<Rightarrow> int \<Rightarrow> int" where
  "int32_add a b = (a + b + 2147483648) mod 4294967296 - 2147483648"

subsection \<open>Arrays that are drawn on: buffers and views\<close>

text \<open>
  The colour picture is mutated in place, and in the two-stage detector through a second
  name (\<open>roi_color = img[y:y+h, x:x+w]\<close>), so colour arrays live in a store. A numpy array
  is a window onto a pixel buffer: the buffer's address, the window's offset in the buffer
  and the window's shape. \<open>img.copy()\<close> allocates a new buffer; slicing makes a new window
  onto the same buffer.
\<close>

record ndarray =
  base :: nat
  row0 :: nat
  col0 :: nat
  nrows :: nat
  ncols :: nat

record store =
  buffers :: "nat \<Rightarrow> nat \<times> nat \<Rightarrow> bgr"
  next_free :: nat

definition empty_store :: store where
  "empty_store = \<lparr>buffers = (\<lambda>_ _. (0, 0, 0)), next_free = 0\<rparr>"

definition new_array :: "bgr image \<Rightarrow> store \<Rightarrow> ndarray \<times> store" where
  "new_array im s =
     (\<lparr>base = next_free s, row0 = 0, col0 = 0, nrows = rows im, ncols = cols im\<rparr>,
      s\<lparr>buffers := (buffers s)(next_free s := pixels im), next_free := Suc (next_free s)\<rparr>)"

definition contents :: "store \<Rightarrow> ndarray \<Rightarrow> bgr image" where
  "contents s a =
     \<lparr>rows = nrows a, cols = ncols a,
      pixels = (\<lambda>(r, c). buffers s (base a) (row0 a + r, col0 a + c))\<rparr>"

definition ndarray_copy :: "ndarray \<Rightarrow> store \<Rightarrow> ndarray \<times> store" where
  "ndarray_copy a s = new_array (contents s a) s"

subsection \<open>Slicing\<close>

text \<open>
  \<open>a[lo:hi]\<close> on an axis of length \<open>n\<close>, as Python adjusts the indices of a slice with
  step 1: a negative index counts from the end, both indices are clamped to \<open>0..n\<close>, and
  the slice is empty when the adjusted stop is not after the adjusted start. The result
  is the start and the length of the slice.
\<close>

definition adjust_index :: "int \<Rightarrow> nat \<Rightarrow> nat" where
  "adjust_index i n =
     (if i < 0 then (if i + int n < 0 then 0 else nat (i + int n))
      else if int n < i then n else nat i)"

definition slice_indices :: "int \<Rightarrow> int \<Rightarrow> nat \<Rightarrow> nat \<times> nat" where
  "slice_indices lo hi n =
     (let start = adjust_index lo n; stop = adjust_index hi n
      in (start, if start < stop then stop - start else 0))"

definition ndarray_slice :: "ndarray \<Rightarrow> int \<Rightarrow> int \<Rightarrow> int \<Rightarrow> int \<Rightarrow> ndarray" where
  "ndarray_slice a ylo yhi xlo xhi =
     (let (rs, rl) = slice_indices ylo yhi (nrows a);
          (cs, cl) = slice_indices xlo xhi (ncols a)
      in \<lparr>base = base a, row0 = row0 a + rs, col0 = col0 a + cs, nrows = rl, ncols = cl\<rparr>)"

definition image_slice :: "'p image \<Rightarrow> int \<Rightarrow> int \<Rightarrow> int \<Rightarrow> int \<Rightarrow> 'p image" where
  "image_slice g ylo yhi xlo xhi =
     (let (rs, rl) = slice_indices ylo yhi (rows g);
          (cs, cl) = slice_indices xlo xhi (cols g)
      in \<lparr>rows = rl, cols = cl, pixels = (\<lambda>(r, c). pixels g (rs + r, cs + c))\<rparr>)"

subsection \<open>Drawing\<close>

text \<open>
  A drawing call writes a colour to some pixels of the array it is given. Which pixels a
  shape covers is the library's rasteriser, a parameter; the write itself goes through
  the window: the point \<open>(px, py)\<close> of the array is the cell
  \<open>(row0 + py, col0 + px)\<close> of its buffer, and a point outside the array's shape is
  clipped.
\<close>

definition in_bounds :: "ndarray \<Rightarrow> point \<Rightarrow> bool" where
  "in_bounds a p =
     (0 \<le> fst p \<and> fst p < int (ncols a) \<and> 0 \<le> snd p \<and> snd p < int (nrows a))"

definition cell_of :: "ndarray \<Rightarrow> point \<Rightarrow> nat \<times> nat" where
  "cell_of a p = (row0 a + nat (snd p), col0 a + nat (fst p))"

definition set_pixel :: "ndarray \<Rightarrow> point \<Rightarrow> bgr \<Rightarrow> store \<Rightarrow> store" where
  "set_pixel a p v s =
     (if in_bounds a p
      then s\<lparr>buffers := (buffers s)(base a := (buffers s (base a))(cell_of a p := v))\<rparr>
      else s)"

fun paint :: "ndarray \<Rightarrow> (point \<times> bgr) list \<Rightarrow> store \<Rightarrow> store" where
  "paint a [] s = s"
| "paint a ((p, v) # ps) s = paint a ps (set_pixel a p v s)"

section \<open>The environment: files, console and the libraries\<close>

text \<open>
  Everything a script asks of the outside is a field of \<open>env\<close>:
  the file system (\<open>path_exists\<close>, \<open>getcwd\<close>), OpenCV (\<open>imread\<close>, the grey conversion
  per pixel, \<open>GaussianBlur\<close>, \<open>Canny\<close>, \<open>findContours\<close>, \<open>contourArea\<close>,
  \<open>boundingRect\<close>, \<open>detectMultiScale\<close> of the cascade loaded from a file, the
  rasterisers of \<open>rectangle\<close>, \<open>ellipse\<close> and \<open>circle\<close>) and MediaPipe
  (\<open>FaceMesh.process\<close>, the rasteriser of \<open>draw_landmarks\<close>). The library calls are
  taken to return: an exception raised inside a library is outside the model. A call
  that returns a new array (\<open>cvtColor\<close>, \<open>GaussianBlur\<close>, \<open>Canny\<close>,
  \<open>findContours\<close>, the detectors) is a function of its input and writes nowhere; the
  only writers are the drawing calls.
\<close>

record env =
  path_exists :: "string \<Rightarrow> bool"
  getcwd :: string
  haarcascades :: string
  imread :: "string \<Rightarrow> bgr image option"
  bgr2gray :: "bgr \<Rightarrow> 8 word"
  GaussianBlur :: "8 word image \<Rightarrow> nat \<times> nat \<Rightarrow> rat \<Rightarrow> 8 word image"
  Canny :: "8 word image \<Rightarrow> rat \<Rightarrow> rat \<Rightarrow> 8 word image"
  findContours :: "8 word image \<Rightarrow> contour list"
  contourArea :: "contour \<Rightarrow> real"
  boundingRect :: "contour \<Rightarrow> rect"
  detectMultiScale ::
    "string \<Rightarrow> 8 word image \<Rightarrow> rat \<Rightarrow> nat \<Rightarrow> (nat \<times> nat) option \<Rightarrow> rect list"
  rectangle_raster :: "nat \<times> nat \<Rightarrow> point \<Rightarrow> point \<Rightarrow> int \<Rightarrow> point list"
  ellipse_raster ::
    "nat \<times> nat \<Rightarrow> point \<Rightarrow> int \<times> int \<Rightarrow> int \<Rightarrow> int \<Rightarrow> int \<Rightarrow> int \<Rightarrow> point list"
  circle_raster :: "nat \<times> nat \<Rightarrow> point \<Rightarrow> int \<Rightarrow> int \<Rightarrow> point list"
  face_mesh_process :: "bgr image \<Rightarrow> landmark_list list option"
  landmarks_raster ::
    "nat \<times> nat \<Rightarrow> landmark_list \<Rightarrow> connections \<Rightarrow> (point \<times> bgr) list"

text \<open>
  What a run does to the outside, in order: each event is a call the script makes
  (\<open>Imwrite\<close> is the call of \<open>cv2.imwrite\<close> with its path and array, and so on). A
  run ends with the exit status of the process: 1 after \<open>sys.exit(1)\<close>, 0 when the
  script runs off its end.
\<close>

datatype event =
    Print string
  | CascadeClassifier string
  | FaceMesh
  | Imread string
  | DetectMultiScale string
  | FaceMeshProcess
  | Imshow string ndarray
  | Imwrite string ndarray
  | WaitKey
  | DestroyAllWindows
  | PltImshow string
  | PltShow

record outcome =
  trace :: "event list"
  final :: store
  status :: nat

subsection \<open>OpenCV calls as the scripts use them\<close>

definition cvtColor_gray :: "env \<Rightarrow> ndarray \<Rightarrow> store \<Rightarrow> 8 word image" where
  "cvtColor_gray e a s =
     \<lparr>rows = nrows a, cols = ncols a,
      pixels = (\<lambda>rc. bgr2gray e (pixels (contents s a) rc))\<rparr>"

definition bgr2rgb :: "bgr \<Rightarrow> bgr" where
  "bgr2rgb p = (case p of (b, g, r) \<Rightarrow> (r, g, b))"

definition cvtColor_rgb :: "ndarray \<Rightarrow> store \<Rightarrow> bgr image" where
  "cvtColor_rgb a s =
     \<lparr>rows = nrows a, cols = ncols a,
      pixels = (\<lambda>rc. bgr2rgb (pixels (contents s a) rc))\<rparr>"

definition cv2_rectangle ::
  "env \<Rightarrow> ndarray \<Rightarrow> point \<Rightarrow> point \<Rightarrow> bgr \<Rightarrow> int \<Rightarrow> store \<Rightarrow> store" where
  "cv2_rectangle e a pt1 pt2 color thickness s =
     paint a (map (\<lambda>p. (p, color)) (rectangle_raster e (nrows a, ncols a) pt1 pt2 thickness)) s"

definition cv2_ellipse ::
  "env \<Rightarrow> ndarray \<Rightarrow> point \<Rightarrow> int \<times> int \<Rightarrow> int \<Rightarrow> int \<Rightarrow> int \<Rightarrow> bgr \<Rightarrow> int \<Rightarrow> store \<Rightarrow> store" where
  "cv2_ellipse e a center axes angle startAngle endAngle color thickness s =
     paint a (map (\<lambda>p. (p, color))
       (ellipse_raster e (nrows a, ncols a) center axes angle startAngle endAngle thickness)) s"

definition cv2_circle ::
  "env \<Rightarrow> ndarray \<Rightarrow> point \<Rightarrow> int \<Rightarrow> bgr \<Rightarrow> int \<Rightarrow> store \<Rightarrow> store" where
  "cv2_circle e a center radius color thickness s =
     paint a (map (\<lambda>p. (p, color)) (circle_raster e (nrows a, ncols a) center radius thickness)) s"

definition draw_landmarks :: "env \<Rightarrow> ndarray \<Rightarrow> landmark_list \<Rightarrow> connections \<Rightarrow> store \<Rightarrow> store" where
  "draw_landmarks e a lms conn s = paint a (landmarks_raster e (nrows a, ncols a) lms conn) s"

subsection \<open>Strings and paths\<close>

text \<open>\<open>str(n)\<close> of a length, for the f-strings.\<close>

definition digit_char :: "nat \<Rightarrow> char" where
  "digit_char d = ''0123456789'' ! d"

function str_nat :: "nat \<Rightarrow> string" where
  "str_nat n = (if n < 10 then [digit_char n] else str_nat (n div 10) @ [digit_char (n mod 10)])"
  by pat_completeness auto
termination
  by (relation "measure id") auto

declare str_nat.simps [simp del]

text \<open>
  \<open>str(Path(s))\<close> on a POSIX system: the string is cut at the slashes, the empty and
  the \<open>.\<close> components are dropped, and the rest is joined again behind the root
  (\<open>/\<close>, or \<open>//\<close> for exactly two leading slashes); nothing left is \<open>.\<close>.
  \<open>Path.absolute\<close> of a relative path joins the working directory and the path,
  component by component, behind the root of the working directory.
\<close>

fun split_slash :: "string \<Rightarrow> string \<Rightarrow> string list" where
  "split_slash acc [] = [acc]"
| "split_slash acc (c # cs) =
     (if c = CHR ''/'' then acc # split_slash [] cs else split_slash (acc @ [c]) cs)"

fun join_slash :: "string list \<Rightarrow> string" where
  "join_slash [] = []"
| "join_slash [p] = p"
| "join_slash (p # q # ps) = p @ ''/'' @ join_slash (q # ps)"

definition path_root :: "string \<Rightarrow> string" where
  "path_root s =
     (if take 2 s = ''//'' \<and> take 3 s \<noteq> ''///'' then ''//''
      else if take 1 s = ''/'' then ''/'' else [])"

definition path_parts :: "string \<Rightarrow> string list" where
  "path_parts s = filter (\<lambda>p. p \<noteq> [] \<and> p \<noteq> ''.'') (split_slash [] s)"

definition Path_str :: "string \<Rightarrow> string" where
  "Path_str s =
     (if path_root s = [] \<and> path_parts s = [] then ''.''
      else path_root s @ join_slash (path_parts s))"

definition Path_absolute :: "env \<Rightarrow> string \<Rightarrow> string" where
  "Path_absolute e s =
     (if path_root s \<noteq> [] then Path_str s
      else (let root = path_root (getcwd e);
                parts = path_parts (getcwd e) @ path_parts s
            in if root = [] \<and> parts = [] then ''.'' else root @ join_slash parts))"

definition Path_exists :: "env \<Rightarrow> string \<Rightarrow> bool" where
  "Path_exists e s = path_exists e (Path_str s)"

text \<open>The cross mark U+274C that opens the "not found" messages, as its UTF-8 bytes.\<close>

definition cross_mark :: string where
  "cross_mark = [CHR 0xE2, CHR 0x9D, CHR 0x8C]"

definition quoted :: "string \<Rightarrow> string" where
  "quoted s = CHR 0x27 # s @ [CHR 0x27]"

section \<open>01-detect_face_by_edge.py\<close>

definition generate_sample_face :: "env \<Rightarrow> store \<Rightarrow> ndarray \<times> store" where
  "generate_sample_face e s =
     (let (img, s0) = new_array \<lparr>rows = 300, cols = 300, pixels = (\<lambda>_. (0, 0, 0))\<rparr> s;
          s1 = cv2_ellipse e img (150, 150) (100, 120) 0 0 360 (255, 255, 255) (- 1) s0;
          s2 = cv2_circle e img (110, 130) 15 (0, 0, 0) (- 1) s1;
          s3 = cv2_circle e img (190, 130) 15 (0, 0, 0) (- 1) s2;
          s4 = cv2_ellipse e img (150, 180) (40, 20) 0 0 180 (0, 0, 0) 5 s3
      in (img, s4))"

text \<open>
  The loop over the contours. Its state is the store (the rectangles go to
  \<open>result_img\<close>) and the flag \<open>face_detected\<close>.
\<close>

fun analyze_contours ::
  "env \<Rightarrow> ndarray \<Rightarrow> contour list \<Rightarrow> store \<times> bool \<Rightarrow> store \<times> bool" where
  "analyze_contours e result_img [] acc = acc"
| "analyze_contours e result_img (c # cs) (s, face_detected) =
     (let area = contourArea e c
      in if area > 1000
         then (case boundingRect e c of
                 (x, y, w, h) \<Rightarrow>
                   analyze_contours e result_img cs
                     (cv2_rectangle e result_img (x, y) (x + w, y + h) (0, 255, 0) 2 s, True))
         else analyze_contours e result_img cs (s, face_detected))"

definition detect_face_edges ::
  "env \<Rightarrow> ndarray \<Rightarrow> store \<Rightarrow> (8 word image \<times> ndarray \<times> bool) \<times> store" where
  "detect_face_edges e img s =
     (let gray = cvtColor_gray e img s;
          blurred = GaussianBlur e gray (5, 5) 0;
          edges = Canny e blurred 50 150;
          contours = findContours e edges;
          (result_img, s1) = ndarray_copy img s;
          (s2, face_detected) = analyze_contours e result_img contours (s1, False)
      in ((edges, result_img, face_detected), s2))"

definition main_01 :: "env \<Rightarrow> outcome" where
  "main_01 e =
     (let (original_img, s1) = generate_sample_face e empty_store;
          ((edge_map, final_result, found), s2) = detect_face_edges e original_img s1
      in \<lparr>trace =
            [PltImshow ''1. Generated Sample Image'',
             PltImshow ''2. Canny Edge Detection'',
             PltImshow ''3. Detected Face Contour'',
             PltShow,
             Print (if found then ''Success: Face shape detected via edge analysis.''
                    else ''No face-like edges found.'')],
          final = s2, status = 0\<rparr>)"

section \<open>02-detect_face_by_haar.py\<close>

fun draw_faces :: "env \<Rightarrow> ndarray \<Rightarrow> rect list \<Rightarrow> store \<Rightarrow> store" where
  "draw_faces e img [] s = s"
| "draw_faces e img ((x, y, w, h) # fs) s =
     draw_faces e img fs
       (cv2_rectangle e img (x, y) (int32_add x w, int32_add y h) (255, 0, 0) 2 s)"

definition detect_faces_in_image :: "env \<Rightarrow> string \<Rightarrow> store \<Rightarrow> event list \<times> store" where
  "detect_faces_in_image e image_url s =
     (let cascade_path = haarcascades e @ ''haarcascade_frontalface_default.xml'';
          t1 = [CascadeClassifier cascade_path, Imread image_url]
      in case imread e image_url of
           None \<Rightarrow> (t1 @ [Print ''Error: Could not load image.''], s)
         | Some im \<Rightarrow>
            (let (img, s1) = new_array im s;
                 gray = cvtColor_gray e img s1;
                 faces = detectMultiScale e cascade_path gray (11 / 10) 5 (Some (30, 30));
                 s2 = draw_faces e img faces s1
             in (t1 @
                 [DetectMultiScale cascade_path,
                  Print (''Found '' @ str_nat (length faces) @ '' faces!''),
                  Imshow ''Detected Faces'' img,
                  Imwrite ''./output/detected_faces.jpg'' img,
                  Print (''Result saved as '' @ quoted ''./output/detected_faces.jpg''),
                  WaitKey,
                  DestroyAllWindows], s2)))"

definition main_02 :: "env \<Rightarrow> outcome" where
  "main_02 e =
     (let url = ''./data/sample_faces.jpeg''
      in if \<not> Path_exists e url
         then \<lparr>trace = [Print (cross_mark @ '' Image file not found'')],
               final = empty_store, status = 1\<rparr>
         else (let (t, s) = detect_faces_in_image e url empty_store
               in \<lparr>trace = t, final = s, status = 0\<rparr>))"

section \<open>03-detect_features_by_haar.py\<close>

text \<open>
  Scripts 03 and 04 hand the \<open>Path\<close> object to the detection function, which reads
  the file named \<open>str(image_path)\<close>. A \<open>Path\<close> is given here by the string it was
  made from, and \<open>Path_str\<close> is its \<open>str\<close>.
\<close>

fun draw_eyes :: "env \<Rightarrow> ndarray \<Rightarrow> rect list \<Rightarrow> store \<Rightarrow> store" where
  "draw_eyes e roi [] s = s"
| "draw_eyes e roi ((ex, ey, ew, eh) # es) s =
     draw_eyes e roi es
       (cv2_rectangle e roi (ex, ey) (int32_add ex ew, int32_add ey eh) (0, 255, 0) 2 s)"

text \<open>
  The two regions of interest of a face: \<open>roi_gray = gray[y:y+h, x:x+w]\<close> is a slice
  of the grey picture and \<open>roi_color = img[y:y+h, x:x+w]\<close> a window onto \<open>img\<close>. The
  stops \<open>y+h\<close> and \<open>x+w\<close> are \<open>int32\<close> sums. The eye pass of a face runs the eye
  cascade on the grey one and draws the rectangles through the colour one.
\<close>

definition roi_gray :: "8 word image \<Rightarrow> rect \<Rightarrow> 8 word image" where
  "roi_gray gray f =
     (case f of (x, y, w, h) \<Rightarrow> image_slice gray y (int32_add y h) x (int32_add x w))"

definition roi_color :: "ndarray \<Rightarrow> rect \<Rightarrow> ndarray" where
  "roi_color img f =
     (case f of (x, y, w, h) \<Rightarrow> ndarray_slice img y (int32_add y h) x (int32_add x w))"

definition find_eyes :: "env \<Rightarrow> 8 word image \<Rightarrow> rect \<Rightarrow> rect list" where
  "find_eyes e gray f =
     detectMultiScale e (haarcascades e @ ''haarcascade_eye.xml'') (roi_gray gray f)
       (11 / 10) 3 None"

definition eye_pass :: "env \<Rightarrow> ndarray \<Rightarrow> 8 word image \<Rightarrow> rect \<Rightarrow> store \<Rightarrow> store" where
  "eye_pass e img gray f s = draw_eyes e (roi_color img f) (find_eyes e gray f) s"

fun analyze_faces ::
  "env \<Rightarrow> ndarray \<Rightarrow> 8 word image \<Rightarrow> rect list \<Rightarrow> event list \<times> store \<Rightarrow> event list \<times> store" where
  "analyze_faces e img gray [] acc = acc"
| "analyze_faces e img gray ((x, y, w, h) # fs) (t, s) =
     (let s1 = cv2_rectangle e img (x, y) (int32_add x w, int32_add y h) (255, 0, 0) 2 s;
          s2 = eye_pass e img gray (x, y, w, h) s1
      in analyze_faces e img gray fs
           (t @ [DetectMultiScale (haarcascades e @ ''haarcascade_eye.xml'')], s2))"

definition detect_features :: "env \<Rightarrow> string \<Rightarrow> store \<Rightarrow> event list \<times> store" where
  "detect_features e image_path s =
     (let face_cascade_path = haarcascades e @ ''haarcascade_frontalface_default.xml'';
          eye_cascade_path = haarcascades e @ ''haarcascade_eye.xml'';
          t1 = [CascadeClassifier face_cascade_path, CascadeClassifier eye_cascade_path,
                Imread (Path_str image_path)]
      in case imread e (Path_str image_path) of
           None \<Rightarrow> (t1 @ [Print ''Error: Could not load image.''], s)
         | Some im \<Rightarrow>
            (let (img, s1) = new_array im s;
                 gray = cvtColor_gray e img s1;
                 faces = detectMultiScale e face_cascade_path gray (11 / 10) 5 (Some (30, 30));
                 t2 = t1 @ [DetectMultiScale face_cascade_path,
                            Print (''Found '' @ str_nat (length faces) @ '' faces.'')];
                 (t3, s2) = analyze_faces e img gray faces (t2, s1)
             in (t3 @
                 [Imshow ''Detected Faces and Eyes'' img,
                  Imwrite ''./output/detected_features.jpg'' img,
                  Print (''Result saved as '' @ quoted ''./output/detected_features.jpg''),
                  WaitKey,
                  DestroyAllWindows], s2)))"

definition main_03 :: "env \<Rightarrow> outcome" where
  "main_03 e =
     (let url = ''./data/sample_faces.jpeg''
      in if \<not> Path_exists e url
         then \<lparr>trace = [Print (cross_mark @ '' Image file not found at: '' @ Path_absolute e url)],
               final = empty_store, status = 1\<rparr>
         else (let (t, s) = detect_features e url empty_store
               in \<lparr>trace = t, final = s, status = 0\<rparr>))"

section \<open>04-detect_face_by_mediapipe.py\<close>

fun draw_meshes :: "env \<Rightarrow> ndarray \<Rightarrow> landmark_list list \<Rightarrow> store \<Rightarrow> store" where
  "draw_meshes e img [] s = s"
| "draw_meshes e img (face_landmarks # ls) s =
     draw_meshes e img ls
       (draw_landmarks e img face_landmarks FACEMESH_CONTOURS
          (draw_landmarks e img face_landmarks FACEMESH_TESSELATION s))"

text \<open>
  \<open>results.multi_face_landmarks\<close> is \<open>None\<close> or a list; the \<open>if\<close> takes the
  first branch when it is a list that is not empty.
\<close>

definition detect_face_contours :: "env \<Rightarrow> string \<Rightarrow> store \<Rightarrow> event list \<times> store" where
  "detect_face_contours e image_path s =
     (let t1 = [FaceMesh, Imread (Path_str image_path)]
      in case imread e (Path_str image_path) of
           None \<Rightarrow> (t1 @ [Print ''Error: Could not load image.''], s)
         | Some im \<Rightarrow>
            (let (img, s1) = new_array im s;
                 img_rgb = cvtColor_rgb img s1;
                 results = face_mesh_process e img_rgb;
                 (t2, s2) =
                   (case results of
                      Some (l # ls) \<Rightarrow>
                        ([Print (''Found '' @ str_nat (length (l # ls)) @ '' faces.'')],
                         draw_meshes e img (l # ls) s1)
                    | _ \<Rightarrow> ([Print ''No faces found.''], s1))
             in (t1 @ [FaceMeshProcess] @ t2 @
                 [Imshow ''Face Contours'' img,
                  Imwrite ''./output/detected_contours.jpg'' img,
                  Print (''Result saved as '' @ quoted ''./output/detected_contours.jpg''),
                  WaitKey,
                  DestroyAllWindows], s2)))"

definition main_04 :: "env \<Rightarrow> outcome" where
  "main_04 e =
     (let url = ''./data/brendan.jpeg''
      in if \<not> Path_exists e url
         then \<lparr>trace = [Print (cross_mark @ '' Image file not found at: '' @ Path_absolute e url)],
               final = empty_store, status = 1\<rparr>
         else (let (t, s) = detect_face_contours e url empty_store
               in \<lparr>trace = t, final = s, status = 0\<rparr>))"

section \<open>Notions the properties are stated with\<close>

subsection \<open>Classes of events\<close>

fun is_detection :: "event \<Rightarrow> bool" where
  "is_detection (DetectMultiScale _) = True"
| "is_detection FaceMeshProcess = True"
| "is_detection _ = False"

fun is_display :: "event \<Rightarrow> bool" where
  "is_display (Imshow _ _) = True"
| "is_display WaitKey = True"
| "is_display DestroyAllWindows = True"
| "is_display (PltImshow _) = True"
| "is_display PltShow = True"
| "is_display _ = False"

fun is_file_write :: "event \<Rightarrow> bool" where
  "is_file_write (Imwrite _ _) = True"
| "is_file_write _ = False"

fun is_file_read :: "event \<Rightarrow> bool" where
  "is_file_read (Imread _) = True"
| "is_file_read _ = False"

fun is_print :: "event \<Rightarrow> bool" where
  "is_print (Print _) = True"
| "is_print _ = False"

text \<open>A run that did nothing but print one message.\<close>

fun only_a_message :: "event list \<Rightarrow> bool" where
  "only_a_message [Print _] = True"
| "only_a_message _ = False"

text \<open>A relative path whose first component is the directory \<open>d\<close>.\<close>

definition under_dir :: "string \<Rightarrow> string \<Rightarrow> bool" where
  "under_dir d p = (path_root p = [] \<and> take 1 (path_parts p) = [d] \<and> 2 \<le> length (path_parts p))"

subsection \<open>The values a photo script works on\<close>

text \<open>
  Each photo script starts from the empty store and puts the decoded picture \<open>im\<close>
  there: \<open>loaded_img im\<close> is the array \<open>img\<close> of the script and \<open>loaded_store im\<close>
  the store right after \<open>imread\<close>. \<open>faces_of\<close> is what the face cascade returns on
  its grey version (scripts 02 and 03), \<open>meshes_of\<close> what the face mesh returns on its
  RGB version (script 04).
\<close>

definition loaded_img :: "bgr image \<Rightarrow> ndarray" where
  "loaded_img im = fst (new_array im empty_store)"

definition loaded_store :: "bgr image \<Rightarrow> store" where
  "loaded_store im = snd (new_array im empty_store)"

definition faces_of :: "env \<Rightarrow> bgr image \<Rightarrow> rect list" where
  "faces_of e im =
     detectMultiScale e (haarcascades e @ ''haarcascade_frontalface_default.xml'')
       (cvtColor_gray e (loaded_img im) (loaded_store im)) (11 / 10) 5 (Some (30, 30))"

definition meshes_of :: "env \<Rightarrow> bgr image \<Rightarrow> landmark_list list option" where
  "meshes_of e im = face_mesh_process e (cvtColor_rgb (loaded_img im) (loaded_store im))"

text \<open>Python's truth value of \<open>results.multi_face_landmarks\<close>.\<close>

fun truthy :: "'a list option \<Rightarrow> bool" where
  "truthy (Some (_ # _)) = True"
| "truthy _ = False"

subsection \<open>Rectangles and pixels\<close>


definition inside_rect :: "rect \<Rightarrow> nat \<times> nat \<Rightarrow> bool" where
  "inside_rect f rc =
     (case f of (x, y, w, h) \<Rightarrow>
        y \<le> int (fst rc) \<and> int (fst rc) < y + h \<and> x \<le> int (snd rc) \<and> int (snd rc) < x + w)"

definition nonneg_rect :: "rect \<Rightarrow> bool" where
  "nonneg_rect f = (case f of (x, y, w, h) \<Rightarrow> 0 \<le> x \<and> 0 \<le> y \<and> 0 \<le> w \<and> 0 \<le> h)"

text \<open>
  An array that OpenCV hands out or accepts is a \<open>cv::Mat\<close>, whose numbers of rows
  and columns are C \<open>int\<close>s.
\<close>

definition mat_shape :: "ndarray \<Rightarrow> bool" where
  "mat_shape a = (int (nrows a) < 2147483648 \<and> int (ncols a) < 2147483648)"

text \<open>The pixel (row, column) of an array, as a cell of its buffer.\<close>

definition pixel_cell :: "ndarray \<Rightarrow> nat \<times> nat \<Rightarrow> nat \<times> nat" where
  "pixel_cell a rc = (row0 a + fst rc, col0 a + snd rc)"

subsection \<open>The contour loop, told as the description tells it\<close>

text \<open>
  The contours that count are those of area above 1000; each gets its bounding box
  drawn in green.
\<close>

definition large_contours :: "env \<Rightarrow> contour list \<Rightarrow> contour list" where
  "large_contours e cs = filter (\<lambda>c. contourArea e c > 1000) cs"

definition draw_bounding_box :: "env \<Rightarrow> ndarray \<Rightarrow> contour \<Rightarrow> store \<Rightarrow> store" where
  "draw_bounding_box e a c s =
     (case boundingRect e c of
        (x, y, w, h) \<Rightarrow> cv2_rectangle e a (x, y) (x + w, y + h) (0, 255, 0) 2 s)"

definition retrieved_contours :: "env \<Rightarrow> ndarray \<Rightarrow> store \<Rightarrow> contour list" where
  "retrieved_contours e img s =
     findContours e (Canny e (GaussianBlur e (cvtColor_gray e img s) (5, 5) 0) 50 150)"

subsection \<open>Sample environments\<close>

text \<open>
  A 100 by 100 black picture, one face at (10, 10) of 40 by 40 with one eye at (5, 5) of
  10 by 10 in it, one contour of area 2500, and rasterisers that paint the anchor points
  of a shape. The variants are a missing file, a file that does not decode, and
  detectors that find nothing.
\<close>

definition sample_image :: "bgr image" where
  "sample_image = \<lparr>rows = 100, cols = 100, pixels = (\<lambda>_. (0, 0, 0))\<rparr>"

definition env_sample :: env where
  "env_sample =
     \<lparr>path_exists = (\<lambda>_. True),
      getcwd = ''/home/user/FaceDetection-Python'',
      haarcascades = ''/usr/lib/cv2/data/'',
      imread = (\<lambda>_. Some sample_image),
      bgr2gray = (\<lambda>p. fst (snd p)),
      GaussianBlur = (\<lambda>g _ _. g),
      Canny = (\<lambda>g _ _. g),
      findContours = (\<lambda>_. [[(0, 0), (50, 0), (50, 50), (0, 50)], [(60, 60), (61, 61)]]),
      contourArea = (\<lambda>c. if length c = 4 then 2500 else 0),
      boundingRect = (\<lambda>c. if length c = 4 then (0, 0, 51, 51) else (60, 60, 2, 2)),
      detectMultiScale =
        (\<lambda>_ _ _ _ minSize. if minSize = None then [(5, 5, 10, 10)] else [(10, 10, 40, 40)]),
      rectangle_raster = (\<lambda>_ pt1 pt2 _. [pt1, pt2]),
      ellipse_raster = (\<lambda>_ center _ _ _ _ _. [center]),
      circle_raster = (\<lambda>_ center _ _. [center]),
      face_mesh_process = (\<lambda>_. Some [[(1 / 2, 1 / 2, 0)]]),
      landmarks_raster = (\<lambda>_ _ _. [((50, 50), (0, 255, 0))])\<rparr>"

definition env_missing :: env where
  "env_missing = env_sample\<lparr>path_exists := (\<lambda>_. False)\<rparr>"

definition env_undecodable :: env where
  "env_undecodable = env_sample\<lparr>imread := (\<lambda>_. None)\<rparr>"

definition env_nothing_found :: env where
  "env_nothing_found =
     env_sample\<lparr>findContours := (\<lambda>_. []),
                detectMultiScale := (\<lambda>_ _ _ _ _. []),
                face_mesh_process := (\<lambda>_. None)\<rparr>"

section \<open>Lemmas about the model\<close>

lemma str_nat_0: "str_nat 0 = ''0''"
  by (simp add: str_nat.simps digit_char_def)

lemma Path_str_sample: "Path_str ''./data/sample_faces.jpeg'' = ''data/sample_faces.jpeg''"
  by (simp add: Path_str_def path_root_def path_parts_def)

lemma Path_str_brendan: "Path_str ''./data/brendan.jpeg'' = ''data/brendan.jpeg''"
  by (simp add: Path_str_def path_root_def path_parts_def)

lemma loaded_img_eq:
  "loaded_img im = \<lparr>base = 0, row0 = 0, col0 = 0, nrows = rows im, ncols = cols im\<rparr>"
  by (simp add: loaded_img_def new_array_def empty_store_def)

lemma new_array_loaded: "new_array im empty_store = (loaded_img im, loaded_store im)"
  by (simp add: loaded_img_def loaded_store_def)

subsection \<open>Painting\<close>

lemma paint_other_base: "b \<noteq> base a \<Longrightarrow> buffers (paint a ps s) b = buffers s b"
  by (induction a ps s rule: paint.induct) (auto simp: set_pixel_def)

lemma paint_next_free: "next_free (paint a ps s) = next_free s"
  by (induction a ps s rule: paint.induct) (auto simp: set_pixel_def)

lemma set_pixel_untouched:
  "in_bounds a p \<longrightarrow> cell_of a p \<noteq> rc \<Longrightarrow>
   buffers (set_pixel a p v s) b rc = buffers s b rc"
  by (auto simp: set_pixel_def)

lemma paint_untouched:
  assumes "\<And>p. in_bounds a p \<Longrightarrow> cell_of a p \<noteq> rc"
  shows "buffers (paint a ps s) b rc = buffers s b rc"
proof (induction ps arbitrary: s)
  case Nil
  show ?case by simp
next
  case (Cons pv ps)
  obtain p v where pv: "pv = (p, v)" by (cases pv)
  have "buffers (paint a ps (set_pixel a p v s)) b rc = buffers (set_pixel a p v s) b rc"
    by (rule Cons.IH)
  also have "\<dots> = buffers s b rc"
    using assms [of p] by (intro set_pixel_untouched) blast
  finally show ?case
    by (simp add: pv)
qed

lemma paint_cong:
  "buffers s b rc = buffers s' b rc \<Longrightarrow>
   buffers (paint a ps s) b rc = buffers (paint a ps s') b rc"
proof (induction ps arbitrary: s s')
  case Nil
  then show ?case by simp
next
  case (Cons pv ps)
  obtain p v where pv: "pv = (p, v)" by (cases pv)
  have "buffers (set_pixel a p v s) b rc = buffers (set_pixel a p v s') b rc"
    using Cons.prems by (auto simp: set_pixel_def)
  then have "buffers (paint a ps (set_pixel a p v s)) b rc =
             buffers (paint a ps (set_pixel a p v s')) b rc"
    by (rule Cons.IH)
  then show ?case
    by (simp add: pv)
qed

lemma cv2_rectangle_other_base:
  "b \<noteq> base a \<Longrightarrow> buffers (cv2_rectangle e a p1 p2 col th s) b = buffers s b"
  by (simp add: cv2_rectangle_def paint_other_base)

lemma cv2_rectangle_untouched:
  "(\<And>p. in_bounds a p \<Longrightarrow> cell_of a p \<noteq> rc) \<Longrightarrow>
   buffers (cv2_rectangle e a p1 p2 col th s) b rc = buffers s b rc"
  unfolding cv2_rectangle_def by (rule paint_untouched)

lemma cv2_rectangle_cong:
  "buffers s b rc = buffers s' b rc \<Longrightarrow>
   buffers (cv2_rectangle e a p1 p2 col th s) b rc =
   buffers (cv2_rectangle e a p1 p2 col th s') b rc"
  unfolding cv2_rectangle_def by (rule paint_cong)

subsection \<open>Slices\<close>


text \<open>A sum that is not negative either comes out as it is or at least \<open>2 ^ 32\<close> lower.\<close>

lemma int32_add_cases:
  assumes "0 \<le> a + b"
  shows "int32_add a b = a + b \<or> int32_add a b \<le> a + b - 4294967296"
proof -
  let ?v = "a + b + 2147483648"
  have "?v mod 4294967296 = ?v - 4294967296 * (?v div 4294967296)"
    by (simp add: minus_mult_div_eq_mod)
  moreover have "0 \<le> ?v div 4294967296"
    using assms by (simp add: pos_imp_zdiv_nonneg_iff)
  ultimately show ?thesis
    unfolding int32_add_def by (cases "?v div 4294967296 = 0") auto
qed


text \<open>
  The rows (or columns) of a slice \<open>lo : lo + len\<close>, with the stop wrapped or not, lie
  in \<open>lo ..< lo + len\<close> when the axis is shorter than \<open>2 ^ 31\<close>: where the sum wraps,
  the slice is empty.
\<close>

lemma slice_indices_cover:
  assumes "0 \<le> lo" "0 \<le> len" "int n < 2147483648"
    and "v = lo + len \<or> v \<le> lo + len - 4294967296"
    and "k < snd (slice_indices lo v n)"
  shows "lo \<le> int (fst (slice_indices lo v n) + k)"
    and "int (fst (slice_indices lo v n) + k) < lo + len"
  using assms by (auto simp: slice_indices_def adjust_index_def Let_def split: if_splits)

lemma ndarray_slice_fields:
  "base (ndarray_slice a ylo yhi xlo xhi) = base a"
  "row0 (ndarray_slice a ylo yhi xlo xhi) = row0 a + fst (slice_indices ylo yhi (nrows a))"
  "col0 (ndarray_slice a ylo yhi xlo xhi) = col0 a + fst (slice_indices xlo xhi (ncols a))"
  "nrows (ndarray_slice a ylo yhi xlo xhi) = snd (slice_indices ylo yhi (nrows a))"
  "ncols (ndarray_slice a ylo yhi xlo xhi) = snd (slice_indices xlo xhi (ncols a))"
  by (simp_all add: ndarray_slice_def split: prod.splits)



lemma roi_color_base: "base (roi_color img f) = base img"
  by (cases f) (simp add: roi_color_def ndarray_slice_fields)

text \<open>The cells a window over a face box can write to are pixels inside the box.\<close>

lemma roi_cell_inside:
  assumes "mat_shape img" and "nonneg_rect (x, y, w, h)"
    and "in_bounds (roi_color img (x, y, w, h)) p"
  shows "\<exists>rc. cell_of (roi_color img (x, y, w, h)) p = pixel_cell img rc \<and>
              inside_rect (x, y, w, h) rc"
proof -
  let ?ys = "slice_indices y (int32_add y h) (nrows img)"
  let ?xs = "slice_indices x (int32_add x w) (ncols img)"
  from assms(1) have shape: "int (nrows img) < 2147483648" "int (ncols img) < 2147483648"
    by (simp_all add: mat_shape_def)
  from assms(2) have nn: "0 \<le> x" "0 \<le> y" "0 \<le> w" "0 \<le> h"
    by (simp_all add: nonneg_rect_def)
  have wrap: "int32_add y h = y + h \<or> int32_add y h \<le> y + h - 4294967296"
    "int32_add x w = x + w \<or> int32_add x w \<le> x + w - 4294967296"
    using nn by (simp_all add: int32_add_cases)
  from assms(3) have py: "0 \<le> snd p" "nat (snd p) < snd ?ys"
    and px: "0 \<le> fst p" "nat (fst p) < snd ?xs"
    by (auto simp: in_bounds_def roi_color_def ndarray_slice_fields)
  let ?rc = "(fst ?ys + nat (snd p), fst ?xs + nat (fst p))"
  have "cell_of (roi_color img (x, y, w, h)) p = pixel_cell img ?rc"
    by (simp add: cell_of_def pixel_cell_def roi_color_def ndarray_slice_fields)
  moreover have "inside_rect (x, y, w, h) ?rc"
    using slice_indices_cover [OF nn(2) nn(4) shape(1) wrap(1) py(2)]
      slice_indices_cover [OF nn(1) nn(3) shape(2) wrap(2) px(2)]
    by (simp add: inside_rect_def)
  ultimately show ?thesis by blast
qed

lemma pixel_cell_inj: "pixel_cell a rc = pixel_cell a rc' \<Longrightarrow> rc = rc'"
  by (cases rc, cases rc') (simp add: pixel_cell_def)

lemma draw_eyes_untouched:
  assumes "\<And>p. in_bounds roi p \<Longrightarrow> cell_of roi p \<noteq> rc"
  shows "buffers (draw_eyes e roi es s) b rc = buffers s b rc"
proof (induction es arbitrary: s)
  case Nil
  show ?case by simp
next
  case (Cons eye es)
  obtain ex ey ew eh where eye: "eye = (ex, ey, ew, eh)" by (cases eye)
  have "buffers (draw_eyes e roi (eye # es) s) b rc =
        buffers (cv2_rectangle e roi (ex, ey) (int32_add ex ew, int32_add ey eh)
                   (0, 255, 0) 2 s) b rc"
    by (simp add: eye Cons.IH)
  also have "\<dots> = buffers s b rc"
    using assms by (rule cv2_rectangle_untouched)
  finally show ?case .
qed

lemma draw_eyes_other_base:
  "b \<noteq> base roi \<Longrightarrow> buffers (draw_eyes e roi es s) b = buffers s b"
  by (induction e roi es s rule: draw_eyes.induct) (simp_all add: cv2_rectangle_other_base)


lemma eye_pass_untouched:
  assumes "mat_shape img" and "nonneg_rect f" and "\<not> inside_rect f rc"
  shows "buffers (eye_pass e img gray f s) b (pixel_cell img rc) = buffers s b (pixel_cell img rc)"
proof -
  obtain x y w h where f: "f = (x, y, w, h)" by (cases f)
  have "cell_of (roi_color img f) p \<noteq> pixel_cell img rc"
    if "in_bounds (roi_color img f) p" for p
  proof
    assume eq: "cell_of (roi_color img f) p = pixel_cell img rc"
    from roi_cell_inside [OF assms(1) assms(2) [unfolded f] that [unfolded f]]
    obtain rc' where "cell_of (roi_color img (x, y, w, h)) p = pixel_cell img rc'"
      and "inside_rect (x, y, w, h) rc'" by blast
    with eq have "inside_rect (x, y, w, h) rc" by (auto simp: f dest: pixel_cell_inj)
    with assms(3) f show False by simp
  qed
  then show ?thesis
    unfolding eye_pass_def by (rule draw_eyes_untouched)
qed

subsection \<open>The loops\<close>

lemma analyze_faces_trace:
  "fst (analyze_faces e img gray fs (t, s)) =
   t @ replicate (length fs) (DetectMultiScale (haarcascades e @ ''haarcascade_eye.xml''))"
proof (induction fs arbitrary: t s)
  case Nil
  show ?case by simp
next
  case (Cons f fs)
  obtain x y w h where f: "f = (x, y, w, h)" by (cases f)
  show ?case
    by (simp add: f Cons.IH Let_def replicate_app_Cons_same)
qed

lemma analyze_faces_outside:
  assumes "mat_shape img"
    and "\<forall>f \<in> set fs. nonneg_rect f \<and> \<not> inside_rect f rc"
    and "buffers s b (pixel_cell img rc) = buffers s' b (pixel_cell img rc)"
  shows "buffers (snd (analyze_faces e img gray fs (t, s))) b (pixel_cell img rc) =
         buffers (draw_faces e img fs s') b (pixel_cell img rc)"
  using assms(2,3)
proof (induction fs arbitrary: t s s')
  case Nil
  then show ?case by simp
next
  case (Cons f fs)
  obtain x y w h where f: "f = (x, y, w, h)" by (cases f)
  let ?blue = "\<lambda>s. cv2_rectangle e img (x, y) (int32_add x w, int32_add y h) (255, 0, 0) 2 s"
  from Cons.prems(1) have here: "nonneg_rect f" "\<not> inside_rect f rc"
    and rest: "\<forall>f \<in> set fs. nonneg_rect f \<and> \<not> inside_rect f rc"
    by simp_all
  have "buffers (eye_pass e img gray f (?blue s)) b (pixel_cell img rc) =
        buffers (?blue s) b (pixel_cell img rc)"
    using assms(1) here by (rule eye_pass_untouched)
  also have "\<dots> = buffers (?blue s') b (pixel_cell img rc)"
    using Cons.prems(2) by (rule cv2_rectangle_cong)
  finally have "buffers (snd (analyze_faces e img gray fs
                   (t @ [DetectMultiScale (haarcascades e @ ''haarcascade_eye.xml'')],
                    eye_pass e img gray f (?blue s)))) b (pixel_cell img rc) =
                buffers (draw_faces e img fs (?blue s')) b (pixel_cell img rc)"
    by (rule Cons.IH [OF rest])
  then show ?case
    by (simp add: f Let_def)
qed

lemma eye_pass_other_base:
  "b \<noteq> base img \<Longrightarrow> buffers (eye_pass e img gray f s) b = buffers s b"
  by (simp add: eye_pass_def draw_eyes_other_base roi_color_base)

lemma fold_boxes_other_base:
  "b \<noteq> base a \<Longrightarrow> buffers (fold (draw_bounding_box e a) cs s) b = buffers s b"
  by (induction cs arbitrary: s)
     (simp_all add: draw_bounding_box_def cv2_rectangle_other_base split: prod.splits)

lemma analyze_contours_eq:
  "analyze_contours e r cs (s, fd) =
   (fold (draw_bounding_box e r) (large_contours e cs) s, fd \<or> large_contours e cs \<noteq> [])"
proof (induction cs arbitrary: s fd)
  case Nil
  show ?case by (simp add: large_contours_def)
next
  case (Cons c cs)
  show ?case
    by (cases "boundingRect e c")
       (simp add: Cons.IH large_contours_def draw_bounding_box_def Let_def)
qed

lemma detect_face_edges_eq:
  "detect_face_edges e img s =
   ((Canny e (GaussianBlur e (cvtColor_gray e img s) (5, 5) 0) 50 150,
     fst (ndarray_copy img s),
     large_contours e (retrieved_contours e img s) \<noteq> []),
    fold (draw_bounding_box e (fst (ndarray_copy img s)))
      (large_contours e (retrieved_contours e img s)) (snd (ndarray_copy img s)))"
  by (simp add: detect_face_edges_def retrieved_contours_def analyze_contours_eq Let_def
      split: prod.splits)

lemma ndarray_copy_fields:
  "base (fst (ndarray_copy a s)) = next_free s"
  "buffers (snd (ndarray_copy a s)) = (buffers s)(next_free s := pixels (contents s a))"
  by (simp_all add: ndarray_copy_def new_array_def)

subsection \<open>The runs of the scripts, case by case\<close>

lemma main_01_trace:
  "trace (main_01 e) =
     [PltImshow ''1. Generated Sample Image'',
      PltImshow ''2. Canny Edge Detection'',
      PltImshow ''3. Detected Face Contour'',
      PltShow,
      Print (if snd (snd (fst (detect_face_edges e (fst (generate_sample_face e empty_store))
                                 (snd (generate_sample_face e empty_store)))))
             then ''Success: Face shape detected via edge analysis.''
             else ''No face-like edges found.'')]"
  by (simp add: main_01_def Let_def split: prod.splits)

lemma main_02_missing:
  assumes "\<not> Path_exists e ''./data/sample_faces.jpeg''"
  shows "main_02 e =
     \<lparr>trace = [Print (cross_mark @ '' Image file not found'')],
      final = empty_store, status = 1\<rparr>"
  using assms by (simp add: main_02_def)

lemma main_02_undecodable:
  assumes "Path_exists e ''./data/sample_faces.jpeg''"
    and "imread e ''./data/sample_faces.jpeg'' = None"
  shows "main_02 e =
     \<lparr>trace = [CascadeClassifier (haarcascades e @ ''haarcascade_frontalface_default.xml''),
               Imread ''./data/sample_faces.jpeg'',
               Print ''Error: Could not load image.''],
      final = empty_store, status = 0\<rparr>"
  using assms by (simp add: main_02_def detect_faces_in_image_def)

lemma main_02_decoded:
  assumes "Path_exists e ''./data/sample_faces.jpeg''"
    and "imread e ''./data/sample_faces.jpeg'' = Some im"
  shows "main_02 e =
     \<lparr>trace = [CascadeClassifier (haarcascades e @ ''haarcascade_frontalface_default.xml''),
               Imread ''./data/sample_faces.jpeg'',
               DetectMultiScale (haarcascades e @ ''haarcascade_frontalface_default.xml''),
               Print (''Found '' @ str_nat (length (faces_of e im)) @ '' faces!''),
               Imshow ''Detected Faces'' (loaded_img im),
               Imwrite ''./output/detected_faces.jpg'' (loaded_img im),
               Print (''Result saved as '' @ quoted ''./output/detected_faces.jpg''),
               WaitKey, DestroyAllWindows],
      final = draw_faces e (loaded_img im) (faces_of e im) (loaded_store im), status = 0\<rparr>"
  using assms
  by (simp add: main_02_def detect_faces_in_image_def new_array_loaded faces_of_def Let_def)

lemma main_03_missing:
  assumes "\<not> Path_exists e ''./data/sample_faces.jpeg''"
  shows "main_03 e =
     \<lparr>trace = [Print (cross_mark @ '' Image file not found at: '' @
                     Path_absolute e ''./data/sample_faces.jpeg'')],
      final = empty_store, status = 1\<rparr>"
  using assms by (simp add: main_03_def)

lemma main_03_undecodable:
  assumes "Path_exists e ''./data/sample_faces.jpeg''"
    and "imread e ''data/sample_faces.jpeg'' = None"
  shows "main_03 e =
     \<lparr>trace = [CascadeClassifier (haarcascades e @ ''haarcascade_frontalface_default.xml''),
               CascadeClassifier (haarcascades e @ ''haarcascade_eye.xml''),
               Imread ''data/sample_faces.jpeg'',
               Print ''Error: Could not load image.''],
      final = empty_store, status = 0\<rparr>"
  using assms by (simp add: main_03_def detect_features_def Path_str_sample)

lemma main_03_decoded:
  assumes "Path_exists e ''./data/sample_faces.jpeg''"
    and "imread e ''data/sample_faces.jpeg'' = Some im"
  shows "trace (main_03 e) =
     [CascadeClassifier (haarcascades e @ ''haarcascade_frontalface_default.xml''),
      CascadeClassifier (haarcascades e @ ''haarcascade_eye.xml''),
      Imread ''data/sample_faces.jpeg'',
      DetectMultiScale (haarcascades e @ ''haarcascade_frontalface_default.xml''),
      Print (''Found '' @ str_nat (length (faces_of e im)) @ '' faces.'')] @
     replicate (length (faces_of e im)) (DetectMultiScale (haarcascades e @ ''haarcascade_eye.xml'')) @
     [Imshow ''Detected Faces and Eyes'' (loaded_img im),
      Imwrite ''./output/detected_features.jpg'' (loaded_img im),
      Print (''Result saved as '' @ quoted ''./output/detected_features.jpg''),
      WaitKey, DestroyAllWindows]"
    and "status (main_03 e) = 0"
proof -
  let ?gray = "cvtColor_gray e (loaded_img im) (loaded_store im)"
  let ?t2 = "[CascadeClassifier (haarcascades e @ ''haarcascade_frontalface_default.xml''),
      CascadeClassifier (haarcascades e @ ''haarcascade_eye.xml''),
      Imread ''data/sample_faces.jpeg'',
      DetectMultiScale (haarcascades e @ ''haarcascade_frontalface_default.xml''),
      Print (''Found '' @ str_nat (length (faces_of e im)) @ '' faces.'')]"
  obtain t3 s2 where run: "analyze_faces e (loaded_img im) ?gray (faces_of e im) (?t2, loaded_store im) = (t3, s2)"
    by (cases "analyze_faces e (loaded_img im) ?gray (faces_of e im) (?t2, loaded_store im)")
  have t3: "t3 = ?t2 @ replicate (length (faces_of e im))
                         (DetectMultiScale (haarcascades e @ ''haarcascade_eye.xml''))"
    using analyze_faces_trace [of e "loaded_img im" ?gray "faces_of e im" ?t2 "loaded_store im"]
    by (simp only: run fst_conv)
  have "detect_features e ''./data/sample_faces.jpeg'' empty_store =
        (t3 @ [Imshow ''Detected Faces and Eyes'' (loaded_img im),
               Imwrite ''./output/detected_features.jpg'' (loaded_img im),
               Print (''Result saved as '' @ quoted ''./output/detected_features.jpg''),
               WaitKey, DestroyAllWindows], s2)"
    using assms(2) run [unfolded faces_of_def]
    by (simp add: detect_features_def Path_str_sample new_array_loaded faces_of_def Let_def)
  then have "main_03 e =
        \<lparr>trace = t3 @ [Imshow ''Detected Faces and Eyes'' (loaded_img im),
               Imwrite ''./output/detected_features.jpg'' (loaded_img im),
               Print (''Result saved as '' @ quoted ''./output/detected_features.jpg''),
               WaitKey, DestroyAllWindows], final = s2, status = 0\<rparr>"
    using assms(1) by (simp add: main_03_def)
  then show "trace (main_03 e) = ?t2 @
     replicate (length (faces_of e im)) (DetectMultiScale (haarcascades e @ ''haarcascade_eye.xml'')) @
     [Imshow ''Detected Faces and Eyes'' (loaded_img im),
      Imwrite ''./output/detected_features.jpg'' (loaded_img im),
      Print (''Result saved as '' @ quoted ''./output/detected_features.jpg''),
      WaitKey, DestroyAllWindows]"
    and "status (main_03 e) = 0"
    by (simp_all add: t3)
qed

lemma main_04_missing:
  assumes "\<not> Path_exists e ''./data/brendan.jpeg''"
  shows "main_04 e =
     \<lparr>trace = [Print (cross_mark @ '' Image file not found at: '' @
                     Path_absolute e ''./data/brendan.jpeg'')],
      final = empty_store, status = 1\<rparr>"
  using assms by (simp add: main_04_def)

lemma main_04_undecodable:
  assumes "Path_exists e ''./data/brendan.jpeg''"
    and "imread e ''data/brendan.jpeg'' = None"
  shows "main_04 e =
     \<lparr>trace = [FaceMesh, Imread ''data/brendan.jpeg'', Print ''Error: Could not load image.''],
      final = empty_store, status = 0\<rparr>"
  using assms by (simp add: main_04_def detect_face_contours_def Path_str_brendan)

lemma main_04_decoded:
  assumes "Path_exists e ''./data/brendan.jpeg''"
    and "imread e ''data/brendan.jpeg'' = Some im"
  shows "trace (main_04 e) =
     [FaceMesh, Imread ''data/brendan.jpeg'', FaceMeshProcess,
      Print (if truthy (meshes_of e im)
             then ''Found '' @ str_nat (length (the (meshes_of e im))) @ '' faces.''
             else ''No faces found.''),
      Imshow ''Face Contours'' (loaded_img im),
      Imwrite ''./output/detected_contours.jpg'' (loaded_img im),
      Print (''Result saved as '' @ quoted ''./output/detected_contours.jpg''),
      WaitKey, DestroyAllWindows]"
    and "status (main_04 e) = 0"
proof -
  have "trace (main_04 e) =
     [FaceMesh, Imread ''data/brendan.jpeg'', FaceMeshProcess,
      Print (if truthy (meshes_of e im)
             then ''Found '' @ str_nat (length (the (meshes_of e im))) @ '' faces.''
             else ''No faces found.''),
      Imshow ''Face Contours'' (loaded_img im),
      Imwrite ''./output/detected_contours.jpg'' (loaded_img im),
      Print (''Result saved as '' @ quoted ''./output/detected_contours.jpg''),
      WaitKey, DestroyAllWindows] \<and> status (main_04 e) = 0"
  proof (cases "meshes_of e im")
    case None
    with assms show ?thesis
      by (simp add: main_04_def detect_face_contours_def Path_str_brendan new_array_loaded
          meshes_of_def Let_def)
  next
    case (Some ls)
    with assms show ?thesis
      by (cases ls)
         (simp_all add: main_04_def detect_face_contours_def Path_str_brendan new_array_loaded
           meshes_of_def Let_def)
  qed
  then show "trace (main_04 e) =
     [FaceMesh, Imread ''data/brendan.jpeg'', FaceMeshProcess,
      Print (if truthy (meshes_of e im)
             then ''Found '' @ str_nat (length (the (meshes_of e im))) @ '' faces.''
             else ''No faces found.''),
      Imshow ''Face Contours'' (loaded_img im),
      Imwrite ''./output/detected_contours.jpg'' (loaded_img im),
      Print (''Result saved as '' @ quoted ''./output/detected_contours.jpg''),
      WaitKey, DestroyAllWindows]"
    and "status (main_04 e) = 0"
    by simp_all
qed

section \<open>The two-stage detector: eyes inside faces\<close>



text \<open>
  C10. The eye pass of a face writes only to pixels of \<open>img\<close> inside that face's box:
  for a picture whose shape fits a \<open>cv::Mat\<close> and a face box with no negative coordinate
  or extent, a pixel of \<open>img\<close> outside the box keeps its value through the eye pass, and
  no other buffer changes. Over the whole loop, a pixel outside every face box ends with
  the value the face rectangles alone give it (\<open>draw_faces\<close> is the loop that draws
  nothing but these).
\<close>

theorem eye_drawing_stays_in_face:
  "(mat_shape img \<and> nonneg_rect f \<and> \<not> inside_rect f rc \<longrightarrow>
      buffers (eye_pass e img gray f s) b (pixel_cell img rc) = buffers s b (pixel_cell img rc)) \<and>
   (b \<noteq> base img \<longrightarrow> buffers (eye_pass e img gray f s) b = buffers s b) \<and>
   (mat_shape img \<and> (\<forall>f \<in> set faces. nonneg_rect f \<and> \<not> inside_rect f rc) \<longrightarrow>
      buffers (snd (analyze_faces e img gray faces (t, s))) b (pixel_cell img rc) =
      buffers (draw_faces e img faces s) b (pixel_cell img rc))"
proof (intro conjI impI)
  assume "mat_shape img \<and> nonneg_rect f \<and> \<not> inside_rect f rc"
  then show "buffers (eye_pass e img gray f s) b (pixel_cell img rc) =
             buffers s b (pixel_cell img rc)"
    by (simp add: eye_pass_untouched)
next
  assume "b \<noteq> base img"
  then show "buffers (eye_pass e img gray f s) b = buffers s b"
    by (rule eye_pass_other_base)
next
  assume *: "mat_shape img \<and> (\<forall>f \<in> set faces. nonneg_rect f \<and> \<not> inside_rect f rc)"
  then have "mat_shape img" "\<forall>f \<in> set faces. nonneg_rect f \<and> \<not> inside_rect f rc"
    by simp_all
  then show "buffers (snd (analyze_faces e img gray faces (t, s))) b (pixel_cell img rc) =
             buffers (draw_faces e img faces s) b (pixel_cell img rc)"
    by (rule analyze_faces_outside) simp
qed

theorem eye_drawing_stays_in_face_witness:
  "mat_shape (loaded_img sample_image) \<and>
   nonneg_rect (10, 10, 40, 40) \<and> \<not> inside_rect (10, 10, 40, 40) (3, 4) \<and>
   (1::nat) \<noteq> base (loaded_img sample_image) \<and>
   buffers (eye_pass env_sample (loaded_img sample_image)
              (cvtColor_gray env_sample (loaded_img sample_image) (loaded_store sample_image))
              (10, 10, 40, 40) (loaded_store sample_image)) 0
           (pixel_cell (loaded_img sample_image) (3, 4)) =
   buffers (loaded_store sample_image) 0 (pixel_cell (loaded_img sample_image) (3, 4)) \<and>
   buffers (eye_pass env_sample (loaded_img sample_image)
              (cvtColor_gray env_sample (loaded_img sample_image) (loaded_store sample_image))
              (10, 10, 40, 40) (loaded_store sample_image)) 1 =
   buffers (loaded_store sample_image) 1 \<and>
   buffers (snd (analyze_faces env_sample (loaded_img sample_image)
              (cvtColor_gray env_sample (loaded_img sample_image) (loaded_store sample_image))
              [(10, 10, 40, 40)] ([], loaded_store sample_image))) 0
           (pixel_cell (loaded_img sample_image) (3, 4)) =
   buffers (draw_faces env_sample (loaded_img sample_image) [(10, 10, 40, 40)]
              (loaded_store sample_image)) 0 (pixel_cell (loaded_img sample_image) (3, 4))"
proof -
  have hyp: "mat_shape (loaded_img sample_image)"
    "nonneg_rect (10, 10, 40, 40)" "\<not> inside_rect (10, 10, 40, 40) (3, 4)"
    "(1::nat) \<noteq> base (loaded_img sample_image)"
    by (simp_all add: mat_shape_def nonneg_rect_def inside_rect_def loaded_img_eq
        sample_image_def)
  note inst = eye_drawing_stays_in_face [where e = env_sample and img = "loaded_img sample_image"
      and gray = "cvtColor_gray env_sample (loaded_img sample_image) (loaded_store sample_image)"
      and f = "(10, 10, 40, 40)" and rc = "(3, 4)" and s = "loaded_store sample_image"
      and faces = "[(10, 10, 40, 40)]" and t = "[]"]
  show ?thesis
    using hyp inst [where b = 0] inst [where b = 1] by simp
qed

section \<open>The edge and contour pipeline\<close>

lemma generate_sample_face_allocated:
  "base (fst (generate_sample_face e s)) = next_free s"
  "next_free (snd (generate_sample_face e s)) = Suc (next_free s)"
  by (simp_all add: generate_sample_face_def new_array_def cv2_ellipse_def cv2_circle_def
      paint_next_free Let_def)

text \<open>
  What script 01 reports follows the flag: "Success" exactly when the pipeline, run on the
  generated picture, retrieves a contour of area above 1000. Whether it does is decided
  inside OpenCV.
\<close>

lemma main_01_reports:
  "last (trace (main_01 e)) =
     Print (if \<exists>c \<in> set (retrieved_contours e (fst (generate_sample_face e empty_store))
                              (snd (generate_sample_face e empty_store))).
                 contourArea e c > 1000
            then ''Success: Face shape detected via edge analysis.''
            else ''No face-like edges found.'')"
  by (auto simp: main_01_trace detect_face_edges_eq large_contours_def filter_empty_conv)

text \<open>
  C5. In \<open>detect_face_edges\<close> the returned flag is true exactly when some retrieved
  contour has an area above 1000; the result picture is the copy of the input with the
  bounding box of each such contour drawn on it, in the order of the contours, and
  nothing is drawn for a contour of area at most 1000.
\<close>

theorem face_detected_iff_large_contour:
  "(case detect_face_edges e img s of
      ((edges, result_img, face_detected), s') \<Rightarrow>
        face_detected = (\<exists>c \<in> set (retrieved_contours e img s). contourArea e c > 1000) \<and>
        result_img = fst (ndarray_copy img s) \<and>
        s' = fold (draw_bounding_box e result_img)
               (filter (\<lambda>c. contourArea e c > 1000) (retrieved_contours e img s))
               (snd (ndarray_copy img s)))"
  by (auto simp: detect_face_edges_eq large_contours_def filter_empty_conv)

theorem face_detected_iff_large_contour_witness:
  "(case detect_face_edges env_sample (loaded_img sample_image) (loaded_store sample_image) of
      ((edges, result_img, face_detected), s') \<Rightarrow>
        face_detected \<and>
        s' = fold (draw_bounding_box env_sample result_img)
               [[(0, 0), (50, 0), (50, 50), (0, 50)]]
               (snd (ndarray_copy (loaded_img sample_image) (loaded_store sample_image))))"
  using face_detected_iff_large_contour
    [of env_sample "loaded_img sample_image" "loaded_store sample_image"]
  by (simp add: retrieved_contours_def env_sample_def split: prod.splits)

text \<open>
  C8. \<open>detect_face_edges\<close> does not change its input picture: for an input array that is
  allocated in the store, its buffer is the same after the call as before, so are its
  contents, and the picture the rectangles were drawn on is another buffer.
\<close>

theorem detect_face_edges_keeps_input:
  assumes "base img < next_free s"
  shows "buffers (snd (detect_face_edges e img s)) (base img) = buffers s (base img) \<and>
         contents (snd (detect_face_edges e img s)) img = contents s img \<and>
         base (fst (snd (fst (detect_face_edges e img s)))) \<noteq> base img"
proof -
  have fresh: "base img \<noteq> base (fst (ndarray_copy img s))"
    using assms by (simp add: ndarray_copy_fields)
  have "buffers (snd (detect_face_edges e img s)) (base img) =
        buffers (snd (ndarray_copy img s)) (base img)"
    using fresh by (simp add: detect_face_edges_eq fold_boxes_other_base)
  also have "\<dots> = buffers s (base img)"
    using assms by (simp add: ndarray_copy_fields)
  finally have same: "buffers (snd (detect_face_edges e img s)) (base img) = buffers s (base img)" .
  then have "contents (snd (detect_face_edges e img s)) img = contents s img"
    by (simp add: contents_def)
  moreover have "base (fst (snd (fst (detect_face_edges e img s)))) \<noteq> base img"
    using fresh by (simp add: detect_face_edges_eq)
  ultimately show ?thesis
    using same by simp
qed

theorem detect_face_edges_keeps_input_witness:
  "base (fst (generate_sample_face env_sample empty_store)) <
     next_free (snd (generate_sample_face env_sample empty_store)) \<and>
   contents (snd (detect_face_edges env_sample (fst (generate_sample_face env_sample empty_store))
                    (snd (generate_sample_face env_sample empty_store))))
            (fst (generate_sample_face env_sample empty_store)) =
   contents (snd (generate_sample_face env_sample empty_store))
            (fst (generate_sample_face env_sample empty_store))"
proof -
  have alloc: "base (fst (generate_sample_face env_sample empty_store)) <
     next_free (snd (generate_sample_face env_sample empty_store))"
    by (simp add: generate_sample_face_allocated)
  show ?thesis
    using alloc detect_face_edges_keeps_input [OF alloc, of env_sample] by simp
qed

section \<open>Runs of the photo scripts\<close>

lemma sample_paths_exist:
  "Path_exists env_sample p" "Path_exists env_undecodable p" "Path_exists env_nothing_found p"
  "\<not> Path_exists env_missing p"
  by (simp_all add: Path_exists_def env_sample_def env_undecodable_def env_nothing_found_def
      env_missing_def)

lemma sample_imread:
  "imread env_sample p = Some sample_image" "imread env_undecodable p = None"
  "imread env_nothing_found p = Some sample_image"
  by (simp_all add: env_sample_def env_undecodable_def env_nothing_found_def)

lemma sample_nothing_found:
  "faces_of env_nothing_found im = []" "\<not> truthy (meshes_of env_nothing_found im)"
  by (simp_all add: faces_of_def meshes_of_def env_nothing_found_def env_sample_def)

text \<open>
  C2, as stated, fails: when the input file exists but does not decode, script 02 ends
  with status 0 and no display window was ever opened or closed.
\<close>

theorem exit_after_window_counterexample:
  "Path_exists env_undecodable ''./data/sample_faces.jpeg'' \<and>
   status (main_02 env_undecodable) = 0 \<and>
   DestroyAllWindows \<notin> set (trace (main_02 env_undecodable)) \<and>
   filter is_display (trace (main_02 env_undecodable)) = []"
  by (simp add: main_02_undecodable sample_paths_exist sample_imread)

text \<open>
  C2, amended. For each of the three photo scripts: when the input path does not exist,
  the run is one console message, status 1 and no detection call; when it exists and the
  picture decodes, the status is 0 and closing the display window is the last thing the
  run does; when it exists and the picture does not decode, the status is 0 and no
  display window is opened.
\<close>

theorem exit_status_by_input:
  "(\<not> Path_exists e ''./data/sample_faces.jpeg'' \<longrightarrow>
      status (main_02 e) = 1 \<and> only_a_message (trace (main_02 e)) \<and>
      filter is_detection (trace (main_02 e)) = [] \<and>
      status (main_03 e) = 1 \<and> only_a_message (trace (main_03 e)) \<and>
      filter is_detection (trace (main_03 e)) = []) \<and>
   (\<not> Path_exists e ''./data/brendan.jpeg'' \<longrightarrow>
      status (main_04 e) = 1 \<and> only_a_message (trace (main_04 e)) \<and>
      filter is_detection (trace (main_04 e)) = []) \<and>
   (Path_exists e ''./data/sample_faces.jpeg'' \<and> imread e ''./data/sample_faces.jpeg'' \<noteq> None \<longrightarrow>
      status (main_02 e) = 0 \<and> last (trace (main_02 e)) = DestroyAllWindows) \<and>
   (Path_exists e ''./data/sample_faces.jpeg'' \<and> imread e ''data/sample_faces.jpeg'' \<noteq> None \<longrightarrow>
      status (main_03 e) = 0 \<and> last (trace (main_03 e)) = DestroyAllWindows) \<and>
   (Path_exists e ''./data/brendan.jpeg'' \<and> imread e ''data/brendan.jpeg'' \<noteq> None \<longrightarrow>
      status (main_04 e) = 0 \<and> last (trace (main_04 e)) = DestroyAllWindows) \<and>
   (Path_exists e ''./data/sample_faces.jpeg'' \<and> imread e ''./data/sample_faces.jpeg'' = None \<longrightarrow>
      status (main_02 e) = 0 \<and> filter is_display (trace (main_02 e)) = []) \<and>
   (Path_exists e ''./data/sample_faces.jpeg'' \<and> imread e ''data/sample_faces.jpeg'' = None \<longrightarrow>
      status (main_03 e) = 0 \<and> filter is_display (trace (main_03 e)) = []) \<and>
   (Path_exists e ''./data/brendan.jpeg'' \<and> imread e ''data/brendan.jpeg'' = None \<longrightarrow>
      status (main_04 e) = 0 \<and> filter is_display (trace (main_04 e)) = [])"
proof (intro conjI impI)
  assume "\<not> Path_exists e ''./data/sample_faces.jpeg''"
  then show "status (main_02 e) = 1" "only_a_message (trace (main_02 e))"
    "filter is_detection (trace (main_02 e)) = []"
    "status (main_03 e) = 1" "only_a_message (trace (main_03 e))"
    "filter is_detection (trace (main_03 e)) = []"
    by (simp_all add: main_02_missing main_03_missing)
next
  assume "\<not> Path_exists e ''./data/brendan.jpeg''"
  then show "status (main_04 e) = 1" "only_a_message (trace (main_04 e))"
    "filter is_detection (trace (main_04 e)) = []"
    by (simp_all add: main_04_missing)
next
  assume "Path_exists e ''./data/sample_faces.jpeg'' \<and> imread e ''./data/sample_faces.jpeg'' \<noteq> None"
  then obtain im where "Path_exists e ''./data/sample_faces.jpeg''"
    "imread e ''./data/sample_faces.jpeg'' = Some im" by auto
  then show "status (main_02 e) = 0" "last (trace (main_02 e)) = DestroyAllWindows"
    by (simp_all add: main_02_decoded)
next
  assume "Path_exists e ''./data/sample_faces.jpeg'' \<and> imread e ''data/sample_faces.jpeg'' \<noteq> None"
  then obtain im where "Path_exists e ''./data/sample_faces.jpeg''"
    "imread e ''data/sample_faces.jpeg'' = Some im" by auto
  then show "status (main_03 e) = 0" "last (trace (main_03 e)) = DestroyAllWindows"
    by (simp_all add: main_03_decoded)
next
  assume "Path_exists e ''./data/brendan.jpeg'' \<and> imread e ''data/brendan.jpeg'' \<noteq> None"
  then obtain im where "Path_exists e ''./data/brendan.jpeg''"
    "imread e ''data/brendan.jpeg'' = Some im" by auto
  then show "status (main_04 e) = 0" "last (trace (main_04 e)) = DestroyAllWindows"
    by (simp_all add: main_04_decoded)
next
  assume "Path_exists e ''./data/sample_faces.jpeg'' \<and> imread e ''./data/sample_faces.jpeg'' = None"
  then show "status (main_02 e) = 0" "filter is_display (trace (main_02 e)) = []"
    by (simp_all add: main_02_undecodable)
next
  assume "Path_exists e ''./data/sample_faces.jpeg'' \<and> imread e ''data/sample_faces.jpeg'' = None"
  then show "status (main_03 e) = 0" "filter is_display (trace (main_03 e)) = []"
    by (simp_all add: main_03_undecodable)
next
  assume "Path_exists e ''./data/brendan.jpeg'' \<and> imread e ''data/brendan.jpeg'' = None"
  then show "status (main_04 e) = 0" "filter is_display (trace (main_04 e)) = []"
    by (simp_all add: main_04_undecodable)
qed

theorem exit_status_by_input_witness:
  "\<not> Path_exists env_missing ''./data/sample_faces.jpeg'' \<and>
   \<not> Path_exists env_missing ''./data/brendan.jpeg'' \<and>
   status (main_02 env_missing) = 1 \<and> status (main_03 env_missing) = 1 \<and>
   status (main_04 env_missing) = 1 \<and>
   Path_exists env_sample ''./data/sample_faces.jpeg'' \<and>
   Path_exists env_sample ''./data/brendan.jpeg'' \<and>
   imread env_sample ''./data/sample_faces.jpeg'' \<noteq> None \<and>
   imread env_sample ''data/sample_faces.jpeg'' \<noteq> None \<and>
   imread env_sample ''data/brendan.jpeg'' \<noteq> None \<and>
   status (main_02 env_sample) = 0 \<and> last (trace (main_02 env_sample)) = DestroyAllWindows \<and>
   status (main_03 env_sample) = 0 \<and> last (trace (main_03 env_sample)) = DestroyAllWindows \<and>
   status (main_04 env_sample) = 0 \<and> last (trace (main_04 env_sample)) = DestroyAllWindows \<and>
   Path_exists env_undecodable ''./data/sample_faces.jpeg'' \<and>
   Path_exists env_undecodable ''./data/brendan.jpeg'' \<and>
   imread env_undecodable ''./data/sample_faces.jpeg'' = None \<and>
   imread env_undecodable ''data/sample_faces.jpeg'' = None \<and>
   imread env_undecodable ''data/brendan.jpeg'' = None \<and>
   status (main_02 env_undecodable) = 0 \<and>
   filter is_display (trace (main_02 env_undecodable)) = [] \<and>
   status (main_03 env_undecodable) = 0 \<and>
   filter is_display (trace (main_03 env_undecodable)) = [] \<and>
   status (main_04 env_undecodable) = 0 \<and>
   filter is_display (trace (main_04 env_undecodable)) = []"
  using exit_status_by_input [of env_missing] exit_status_by_input [of env_sample]
    exit_status_by_input [of env_undecodable]
  by (simp add: sample_paths_exist sample_imread)

text \<open>
  C3. Each photo script checks two error conditions and no other. A missing input file:
  the run is the one "not found" message and the process exits (status 1). A picture that
  fails to decode: the run ends with the message "Error: Could not load image." and no
  detection call was made. In every other run, whatever the detector returns, a
  detection call is made, that error message is not printed, the output file is written
  and the status is 0.
\<close>

theorem two_error_conditions:
  "(\<not> Path_exists e ''./data/sample_faces.jpeg'' \<longrightarrow>
      trace (main_02 e) = [Print (cross_mark @ '' Image file not found'')] \<and>
      status (main_02 e) = 1 \<and>
      trace (main_03 e) =
        [Print (cross_mark @ '' Image file not found at: '' @
                Path_absolute e ''./data/sample_faces.jpeg'')] \<and>
      status (main_03 e) = 1) \<and>
   (\<not> Path_exists e ''./data/brendan.jpeg'' \<longrightarrow>
      trace (main_04 e) =
        [Print (cross_mark @ '' Image file not found at: '' @
                Path_absolute e ''./data/brendan.jpeg'')] \<and>
      status (main_04 e) = 1) \<and>
   (Path_exists e ''./data/sample_faces.jpeg'' \<and> imread e ''./data/sample_faces.jpeg'' = None \<longrightarrow>
      last (trace (main_02 e)) = Print ''Error: Could not load image.'' \<and>
      filter is_detection (trace (main_02 e)) = []) \<and>
   (Path_exists e ''./data/sample_faces.jpeg'' \<and> imread e ''data/sample_faces.jpeg'' = None \<longrightarrow>
      last (trace (main_03 e)) = Print ''Error: Could not load image.'' \<and>
      filter is_detection (trace (main_03 e)) = []) \<and>
   (Path_exists e ''./data/brendan.jpeg'' \<and> imread e ''data/brendan.jpeg'' = None \<longrightarrow>
      last (trace (main_04 e)) = Print ''Error: Could not load image.'' \<and>
      filter is_detection (trace (main_04 e)) = []) \<and>
   (Path_exists e ''./data/sample_faces.jpeg'' \<and> imread e ''./data/sample_faces.jpeg'' \<noteq> None \<longrightarrow>
      filter is_detection (trace (main_02 e)) \<noteq> [] \<and>
      Print ''Error: Could not load image.'' \<notin> set (trace (main_02 e)) \<and>
      filter is_file_write (trace (main_02 e)) \<noteq> [] \<and> status (main_02 e) = 0) \<and>
   (Path_exists e ''./data/sample_faces.jpeg'' \<and> imread e ''data/sample_faces.jpeg'' \<noteq> None \<longrightarrow>
      filter is_detection (trace (main_03 e)) \<noteq> [] \<and>
      Print ''Error: Could not load image.'' \<notin> set (trace (main_03 e)) \<and>
      filter is_file_write (trace (main_03 e)) \<noteq> [] \<and> status (main_03 e) = 0) \<and>
   (Path_exists e ''./data/brendan.jpeg'' \<and> imread e ''data/brendan.jpeg'' \<noteq> None \<longrightarrow>
      filter is_detection (trace (main_04 e)) \<noteq> [] \<and>
      Print ''Error: Could not load image.'' \<notin> set (trace (main_04 e)) \<and>
      filter is_file_write (trace (main_04 e)) \<noteq> [] \<and> status (main_04 e) = 0)"
proof (intro conjI impI)
  assume "\<not> Path_exists e ''./data/sample_faces.jpeg''"
  then show "trace (main_02 e) = [Print (cross_mark @ '' Image file not found'')]"
    "status (main_02 e) = 1"
    "trace (main_03 e) =
        [Print (cross_mark @ '' Image file not found at: '' @
                Path_absolute e ''./data/sample_faces.jpeg'')]"
    "status (main_03 e) = 1"
    by (simp_all add: main_02_missing main_03_missing)
next
  assume "\<not> Path_exists e ''./data/brendan.jpeg''"
  then show "trace (main_04 e) =
        [Print (cross_mark @ '' Image file not found at: '' @
                Path_absolute e ''./data/brendan.jpeg'')]"
    "status (main_04 e) = 1"
    by (simp_all add: main_04_missing)
next
  assume "Path_exists e ''./data/sample_faces.jpeg'' \<and> imread e ''./data/sample_faces.jpeg'' = None"
  then show "last (trace (main_02 e)) = Print ''Error: Could not load image.''"
    "filter is_detection (trace (main_02 e)) = []"
    by (simp_all add: main_02_undecodable)
next
  assume "Path_exists e ''./data/sample_faces.jpeg'' \<and> imread e ''data/sample_faces.jpeg'' = None"
  then show "last (trace (main_03 e)) = Print ''Error: Could not load image.''"
    "filter is_detection (trace (main_03 e)) = []"
    by (simp_all add: main_03_undecodable)
next
  assume "Path_exists e ''./data/brendan.jpeg'' \<and> imread e ''data/brendan.jpeg'' = None"
  then show "last (trace (main_04 e)) = Print ''Error: Could not load image.''"
    "filter is_detection (trace (main_04 e)) = []"
    by (simp_all add: main_04_undecodable)
next
  assume "Path_exists e ''./data/sample_faces.jpeg'' \<and> imread e ''./data/sample_faces.jpeg'' \<noteq> None"
  then obtain im where "Path_exists e ''./data/sample_faces.jpeg''"
    "imread e ''./data/sample_faces.jpeg'' = Some im" by auto
  then show "filter is_detection (trace (main_02 e)) \<noteq> []"
    "Print ''Error: Could not load image.'' \<notin> set (trace (main_02 e))"
    "filter is_file_write (trace (main_02 e)) \<noteq> []" "status (main_02 e) = 0"
    by (simp_all add: main_02_decoded quoted_def)
next
  assume "Path_exists e ''./data/sample_faces.jpeg'' \<and> imread e ''data/sample_faces.jpeg'' \<noteq> None"
  then obtain im where "Path_exists e ''./data/sample_faces.jpeg''"
    "imread e ''data/sample_faces.jpeg'' = Some im" by auto
  then show "filter is_detection (trace (main_03 e)) \<noteq> []"
    "Print ''Error: Could not load image.'' \<notin> set (trace (main_03 e))"
    "filter is_file_write (trace (main_03 e)) \<noteq> []" "status (main_03 e) = 0"
    by (simp_all add: main_03_decoded quoted_def)
next
  assume "Path_exists e ''./data/brendan.jpeg'' \<and> imread e ''data/brendan.jpeg'' \<noteq> None"
  then obtain im where "Path_exists e ''./data/brendan.jpeg''"
    "imread e ''data/brendan.jpeg'' = Some im" by auto
  then show "filter is_detection (trace (main_04 e)) \<noteq> []"
    "Print ''Error: Could not load image.'' \<notin> set (trace (main_04 e))"
    "filter is_file_write (trace (main_04 e)) \<noteq> []" "status (main_04 e) = 0"
    by (simp_all add: main_04_decoded quoted_def)
qed

theorem two_error_conditions_witness:
  "\<not> Path_exists env_missing ''./data/sample_faces.jpeg'' \<and>
   \<not> Path_exists env_missing ''./data/brendan.jpeg'' \<and>
   trace (main_02 env_missing) = [Print (cross_mark @ '' Image file not found'')] \<and>
   status (main_03 env_missing) = 1 \<and> status (main_04 env_missing) = 1 \<and>
   Path_exists env_undecodable ''./data/sample_faces.jpeg'' \<and>
   Path_exists env_undecodable ''./data/brendan.jpeg'' \<and>
   imread env_undecodable ''./data/sample_faces.jpeg'' = None \<and>
   imread env_undecodable ''data/sample_faces.jpeg'' = None \<and>
   imread env_undecodable ''data/brendan.jpeg'' = None \<and>
   last (trace (main_02 env_undecodable)) = Print ''Error: Could not load image.'' \<and>
   last (trace (main_03 env_undecodable)) = Print ''Error: Could not load image.'' \<and>
   last (trace (main_04 env_undecodable)) = Print ''Error: Could not load image.'' \<and>
   Path_exists env_sample ''./data/sample_faces.jpeg'' \<and>
   Path_exists env_sample ''./data/brendan.jpeg'' \<and>
   imread env_sample ''./data/sample_faces.jpeg'' \<noteq> None \<and>
   imread env_sample ''data/sample_faces.jpeg'' \<noteq> None \<and>
   imread env_sample ''data/brendan.jpeg'' \<noteq> None \<and>
   filter is_detection (trace (main_02 env_sample)) \<noteq> [] \<and>
   filter is_detection (trace (main_03 env_sample)) \<noteq> [] \<and>
   filter is_detection (trace (main_04 env_sample)) \<noteq> [] \<and>
   status (main_02 env_sample) = 0 \<and> status (main_03 env_sample) = 0 \<and>
   status (main_04 env_sample) = 0"
  using two_error_conditions [of env_missing] two_error_conditions [of env_undecodable]
    two_error_conditions [of env_sample]
  by (simp add: sample_paths_exist sample_imread)

text \<open>
  C9. In each photo script, when the picture fails to decode, the run is: the
  classifiers are set up, the read is attempted, the error message is printed. Nothing
  else is printed, no file is written, no display window is opened, no detection call is
  made and the store is left as it was.
\<close>

theorem decode_failure_is_atomic:
  "(Path_exists e ''./data/sample_faces.jpeg'' \<and> imread e ''./data/sample_faces.jpeg'' = None \<longrightarrow>
      trace (main_02 e) =
        [CascadeClassifier (haarcascades e @ ''haarcascade_frontalface_default.xml''),
         Imread ''./data/sample_faces.jpeg'',
         Print ''Error: Could not load image.''] \<and>
      filter is_print (trace (main_02 e)) = [Print ''Error: Could not load image.''] \<and>
      filter is_file_write (trace (main_02 e)) = [] \<and>
      filter is_display (trace (main_02 e)) = [] \<and>
      filter is_detection (trace (main_02 e)) = [] \<and>
      final (main_02 e) = empty_store) \<and>
   (Path_exists e ''./data/sample_faces.jpeg'' \<and> imread e ''data/sample_faces.jpeg'' = None \<longrightarrow>
      trace (main_03 e) =
        [CascadeClassifier (haarcascades e @ ''haarcascade_frontalface_default.xml''),
         CascadeClassifier (haarcascades e @ ''haarcascade_eye.xml''),
         Imread ''data/sample_faces.jpeg'',
         Print ''Error: Could not load image.''] \<and>
      filter is_print (trace (main_03 e)) = [Print ''Error: Could not load image.''] \<and>
      filter is_file_write (trace (main_03 e)) = [] \<and>
      filter is_display (trace (main_03 e)) = [] \<and>
      filter is_detection (trace (main_03 e)) = [] \<and>
      final (main_03 e) = empty_store) \<and>
   (Path_exists e ''./data/brendan.jpeg'' \<and> imread e ''data/brendan.jpeg'' = None \<longrightarrow>
      trace (main_04 e) =
        [FaceMesh, Imread ''data/brendan.jpeg'', Print ''Error: Could not load image.''] \<and>
      filter is_print (trace (main_04 e)) = [Print ''Error: Could not load image.''] \<and>
      filter is_file_write (trace (main_04 e)) = [] \<and>
      filter is_display (trace (main_04 e)) = [] \<and>
      filter is_detection (trace (main_04 e)) = [] \<and>
      final (main_04 e) = empty_store)"
  by (simp add: main_02_undecodable main_03_undecodable main_04_undecodable)

theorem decode_failure_is_atomic_witness:
  "Path_exists env_undecodable ''./data/sample_faces.jpeg'' \<and>
   Path_exists env_undecodable ''./data/brendan.jpeg'' \<and>
   imread env_undecodable ''./data/sample_faces.jpeg'' = None \<and>
   imread env_undecodable ''data/sample_faces.jpeg'' = None \<and>
   imread env_undecodable ''data/brendan.jpeg'' = None \<and>
   filter is_print (trace (main_02 env_undecodable)) = [Print ''Error: Could not load image.''] \<and>
   filter is_file_write (trace (main_03 env_undecodable)) = [] \<and>
   filter is_display (trace (main_04 env_undecodable)) = [] \<and>
   filter is_detection (trace (main_02 env_undecodable)) = [] \<and>
   filter is_detection (trace (main_03 env_undecodable)) = [] \<and>
   filter is_detection (trace (main_04 env_undecodable)) = [] \<and>
   final (main_03 env_undecodable) = empty_store"
  using decode_failure_is_atomic [of env_undecodable]
  by (simp add: sample_paths_exist sample_imread)

text \<open>
  C6. A photo script that finds nothing still runs to its end: it prints the zero count
  (scripts 02 and 03) or "No faces found." (script 04), writes the output picture, which
  is the picture as it was read, and ends with status 0.
\<close>

theorem zero_detections_are_normal:
  "(Path_exists e ''./data/sample_faces.jpeg'' \<and>
    imread e ''./data/sample_faces.jpeg'' = Some im \<and> faces_of e im = [] \<longrightarrow>
      Print ''Found 0 faces!'' \<in> set (trace (main_02 e)) \<and>
      Imwrite ''./output/detected_faces.jpg'' (loaded_img im) \<in> set (trace (main_02 e)) \<and>
      final (main_02 e) = loaded_store im \<and>
      status (main_02 e) = 0) \<and>
   (Path_exists e ''./data/sample_faces.jpeg'' \<and>
    imread e ''data/sample_faces.jpeg'' = Some im \<and> faces_of e im = [] \<longrightarrow>
      Print ''Found 0 faces.'' \<in> set (trace (main_03 e)) \<and>
      Imwrite ''./output/detected_features.jpg'' (loaded_img im) \<in> set (trace (main_03 e)) \<and>
      status (main_03 e) = 0) \<and>
   (Path_exists e ''./data/brendan.jpeg'' \<and>
    imread e ''data/brendan.jpeg'' = Some im \<and> \<not> truthy (meshes_of e im) \<longrightarrow>
      Print ''No faces found.'' \<in> set (trace (main_04 e)) \<and>
      Imwrite ''./output/detected_contours.jpg'' (loaded_img im) \<in> set (trace (main_04 e)) \<and>
      status (main_04 e) = 0)"
  by (simp add: main_02_decoded main_03_decoded main_04_decoded str_nat_0)

theorem zero_detections_are_normal_witness:
  "Path_exists env_nothing_found ''./data/sample_faces.jpeg'' \<and>
   Path_exists env_nothing_found ''./data/brendan.jpeg'' \<and>
   imread env_nothing_found ''./data/sample_faces.jpeg'' = Some sample_image \<and>
   imread env_nothing_found ''data/sample_faces.jpeg'' = Some sample_image \<and>
   imread env_nothing_found ''data/brendan.jpeg'' = Some sample_image \<and>
   faces_of env_nothing_found sample_image = [] \<and>
   \<not> truthy (meshes_of env_nothing_found sample_image) \<and>
   Print ''Found 0 faces!'' \<in> set (trace (main_02 env_nothing_found)) \<and>
   Print ''Found 0 faces.'' \<in> set (trace (main_03 env_nothing_found)) \<and>
   Print ''No faces found.'' \<in> set (trace (main_04 env_nothing_found)) \<and>
   status (main_02 env_nothing_found) = 0 \<and> status (main_03 env_nothing_found) = 0 \<and>
   status (main_04 env_nothing_found) = 0"
  using zero_detections_are_normal [of env_nothing_found sample_image]
  by (simp add: sample_paths_exist sample_imread sample_nothing_found)

lemma under_dir_paths:
  "under_dir ''data'' ''./data/sample_faces.jpeg''"
  "under_dir ''data'' ''data/sample_faces.jpeg''"
  "under_dir ''data'' ''data/brendan.jpeg''"
  "under_dir ''output'' ''./output/detected_faces.jpg''"
  "under_dir ''output'' ''./output/detected_features.jpg''"
  "under_dir ''output'' ''./output/detected_contours.jpg''"
  by (simp_all add: under_dir_def path_root_def path_parts_def)

text \<open>
  C4, as stated, fails for the synthetic-image script: a run of script 01 reads no image
  file and writes no file.
\<close>

theorem script_01_reads_and_writes_no_file:
  "filter is_file_read (trace (main_01 env_sample)) = [] \<and>
   filter is_file_write (trace (main_01 env_sample)) = []"
  by (simp add: main_01_trace)

text \<open>
  C4, amended. Each photo script whose input file exists reads the picture from its fixed
  relative path under \<open>data\<close>, and no other file; when the picture decodes, it writes
  the picture it has drawn on to its fixed relative path under \<open>output\<close>, shows it in
  a window and waits for a key. Script 01 reads no image file and writes no file.
\<close>

theorem photo_scripts_side_effects:
  "(Path_exists e ''./data/sample_faces.jpeg'' \<longrightarrow>
      filter is_file_read (trace (main_02 e)) = [Imread ''./data/sample_faces.jpeg''] \<and>
      filter is_file_read (trace (main_03 e)) = [Imread ''data/sample_faces.jpeg'']) \<and>
   (Path_exists e ''./data/brendan.jpeg'' \<longrightarrow>
      filter is_file_read (trace (main_04 e)) = [Imread ''data/brendan.jpeg'']) \<and>
   (Path_exists e ''./data/sample_faces.jpeg'' \<and> imread e ''./data/sample_faces.jpeg'' = Some im \<longrightarrow>
      filter is_file_write (trace (main_02 e)) =
        [Imwrite ''./output/detected_faces.jpg'' (loaded_img im)] \<and>
      final (main_02 e) = draw_faces e (loaded_img im) (faces_of e im) (loaded_store im) \<and>
      Imshow ''Detected Faces'' (loaded_img im) \<in> set (trace (main_02 e)) \<and>
      WaitKey \<in> set (trace (main_02 e))) \<and>
   (Path_exists e ''./data/sample_faces.jpeg'' \<and> imread e ''data/sample_faces.jpeg'' = Some im \<longrightarrow>
      filter is_file_write (trace (main_03 e)) =
        [Imwrite ''./output/detected_features.jpg'' (loaded_img im)] \<and>
      Imshow ''Detected Faces and Eyes'' (loaded_img im) \<in> set (trace (main_03 e)) \<and>
      WaitKey \<in> set (trace (main_03 e))) \<and>
   (Path_exists e ''./data/brendan.jpeg'' \<and> imread e ''data/brendan.jpeg'' = Some im \<longrightarrow>
      filter is_file_write (trace (main_04 e)) =
        [Imwrite ''./output/detected_contours.jpg'' (loaded_img im)] \<and>
      Imshow ''Face Contours'' (loaded_img im) \<in> set (trace (main_04 e)) \<and>
      WaitKey \<in> set (trace (main_04 e))) \<and>
   under_dir ''data'' ''./data/sample_faces.jpeg'' \<and>
   under_dir ''data'' ''data/sample_faces.jpeg'' \<and>
   under_dir ''data'' ''data/brendan.jpeg'' \<and>
   under_dir ''output'' ''./output/detected_faces.jpg'' \<and>
   under_dir ''output'' ''./output/detected_features.jpg'' \<and>
   under_dir ''output'' ''./output/detected_contours.jpg'' \<and>
   filter is_file_read (trace (main_01 e)) = [] \<and>
   filter is_file_write (trace (main_01 e)) = []"
proof -
  have r2: "filter is_file_read (trace (main_02 e)) = [Imread ''./data/sample_faces.jpeg'']"
    if "Path_exists e ''./data/sample_faces.jpeg''"
    using that
    by (cases "imread e ''./data/sample_faces.jpeg''")
       (simp_all add: main_02_undecodable main_02_decoded)
  have r3: "filter is_file_read (trace (main_03 e)) = [Imread ''data/sample_faces.jpeg'']"
    if "Path_exists e ''./data/sample_faces.jpeg''"
    using that
    by (cases "imread e ''data/sample_faces.jpeg''")
       (simp_all add: main_03_undecodable main_03_decoded)
  have r4: "filter is_file_read (trace (main_04 e)) = [Imread ''data/brendan.jpeg'']"
    if "Path_exists e ''./data/brendan.jpeg''"
    using that
    by (cases "imread e ''data/brendan.jpeg''")
       (simp_all add: main_04_undecodable main_04_decoded)
  show ?thesis
    by (simp add: r2 r3 r4 main_02_decoded main_03_decoded main_04_decoded under_dir_paths
        main_01_trace)
qed

theorem photo_scripts_side_effects_witness:
  "Path_exists env_sample ''./data/sample_faces.jpeg'' \<and>
   Path_exists env_sample ''./data/brendan.jpeg'' \<and>
   imread env_sample ''./data/sample_faces.jpeg'' = Some sample_image \<and>
   imread env_sample ''data/sample_faces.jpeg'' = Some sample_image \<and>
   imread env_sample ''data/brendan.jpeg'' = Some sample_image \<and>
   filter is_file_read (trace (main_02 env_sample)) = [Imread ''./data/sample_faces.jpeg''] \<and>
   filter is_file_read (trace (main_03 env_sample)) = [Imread ''data/sample_faces.jpeg''] \<and>
   filter is_file_read (trace (main_04 env_sample)) = [Imread ''data/brendan.jpeg''] \<and>
   filter is_file_write (trace (main_02 env_sample)) =
     [Imwrite ''./output/detected_faces.jpg'' (loaded_img sample_image)] \<and>
   filter is_file_write (trace (main_03 env_sample)) =
     [Imwrite ''./output/detected_features.jpg'' (loaded_img sample_image)] \<and>
   filter is_file_write (trace (main_04 env_sample)) =
     [Imwrite ''./output/detected_contours.jpg'' (loaded_img sample_image)] \<and>
   WaitKey \<in> set (trace (main_02 env_sample)) \<and>
   WaitKey \<in> set (trace (main_03 env_sample)) \<and>
   WaitKey \<in> set (trace (main_04 env_sample))"
  using photo_scripts_side_effects [of env_sample sample_image]
  by (simp add: sample_paths_exist sample_imread)

end
